theory Spec2Isabelle
  imports Main "HOL-Library.Word"
begin

section \<open>The SQLite vector store of \<^verbatim>\<open>llama_index/vector_stores/sqlite.py\<close>\<close>

text \<open>
  The class \<^verbatim>\<open>SqliteVectorStore\<close> keeps one relational table of node rows and one
  \<^verbatim>\<open>vss0\<close> virtual table of embeddings on a single \<^verbatim>\<open>sqlite3\<close> connection. The
  model below follows the methods statement by statement, up to the statement at which
  each of them raises. The state of the connection is explicit: the durable tables, the
  tables as the open transaction sees them, whether the connection has been closed, and
  the calls made on the connection object. Every Python exception is a value \<open>Inl e\<close>; the
  state returned with it is the state at the point of the raise.
\<close>

subsection \<open>Values that cross the interface\<close>

text \<open>A Python float is an IEEE-754 double; the model carries its 64-bit pattern and never
  computes with it.\<close>

type_synonym pyfloat = "64 word"

type_synonym byte = "8 word"

text \<open>A metadata document: string keys, kept in insertion order as a Python dict does.\<close>

type_synonym document = "(string \<times> string) list"

text \<open>Modelled from the spec: the node type \<^verbatim>\<open>TextNode\<close> of \<^verbatim>\<open>llama_index.schema\<close> is not
  part of the source file. The spec's data model gives a node a caller-supplied \<^verbatim>\<open>node_id\<close>,
  the \<^verbatim>\<open>doc_id\<close> of its owning document, its text and a metadata document.\<close>

record text_node =
  node_id :: string
  doc_id :: string
  node_text :: string
  node_metadata :: document

text \<open>Modelled from the spec: \<^verbatim>\<open>NodeWithEmbedding\<close> of \<^verbatim>\<open>llama_index.vector_stores.types\<close>, a
  node paired with the embedding the caller supplies.\<close>

record node_with_embedding =
  node :: text_node
  embedding :: "pyfloat list"

text \<open>Modelled from the spec: \<^verbatim>\<open>VectorStoreQuery\<close>, of which \<^verbatim>\<open>query\<close> reads the embedding and
  the limit \<open>k\<close>.\<close>

record vector_store_query =
  query_embedding :: "pyfloat list"
  similarity_top_k :: nat

text \<open>Modelled from the spec: \<^verbatim>\<open>VectorStoreQueryResult\<close>, three sequences.\<close>

record vector_store_query_result =
  nodes :: "text_node list"
  similarities :: "pyfloat list"
  ids :: "string list"

subsection \<open>Exceptions\<close>

text \<open>
  \<open>TypeError\<close> is raised by the Python runtime, \<open>ProgrammingError\<close> by \<^verbatim>\<open>sqlite3\<close>,
  \<open>OverflowError\<close> by \<^verbatim>\<open>struct.pack\<close>. \<open>DimensionMismatch\<close> and \<open>StoreClosed\<close> are error
  kinds named by the specification; no statement of the source raises them.
\<close>

datatype pyerror =
    TypeError
  | OverflowError
  | ProgrammingError
  | DimensionMismatch
  | StoreClosed

subsection \<open>The two tables\<close>

text \<open>
  \<^verbatim>\<open>_create_tables_if_not_exists\<close> creates the node table with the columns
  \<^verbatim>\<open>id INTEGER PRIMARY KEY AUTOINCREMENT, node_text, metadata, node_id, doc_id\<close> and the
  virtual table \<^verbatim>\<open>vss0(embedding(1536))\<close>, whose rows are a \<^verbatim>\<open>rowid\<close> and an embedding
  blob.
\<close>

record node_row =
  col_id :: nat
  col_node_text :: string
  col_metadata :: document
  col_node_id :: string
  col_doc_id :: string

definition vss_dimension :: nat where
  "vss_dimension = 1536"

record db =
  node_table :: "node_row list"
  vss_table :: "(nat \<times> byte list) list"

definition empty_db :: db where
  "empty_db = \<lparr>node_table = [], vss_table = []\<rparr>"

definition row_ids :: "db \<Rightarrow> nat set" where
  "row_ids d = set (map col_id (node_table d))"

definition vss_ids :: "db \<Rightarrow> nat set" where
  "vss_ids d = set (map fst (vss_table d))"

text \<open>The two tables row for row: the same identities on both sides, each of them once.\<close>

definition one_to_one :: "db \<Rightarrow> bool" where
  "one_to_one d =
     (row_ids d = vss_ids d
      \<and> distinct (map col_id (node_table d))
      \<and> distinct (map fst (vss_table d)))"

subsection \<open>The connection\<close>

text \<open>
  \<^verbatim>\<open>sqlite3\<close> is outside the source file; the model takes from it what the methods meet
  before they raise.
  \<^item> \<^verbatim>\<open>self.con.cursor()\<close> hands out a cursor, and raises \<^verbatim>\<open>sqlite3.ProgrammingError\<close> on a
    closed connection.
  \<^item> A cursor is no context manager: \<^verbatim>\<open>sqlite3.Cursor\<close> has neither \<^verbatim>\<open>__enter__\<close> nor
    \<^verbatim>\<open>__exit__\<close>, so \<^verbatim>\<open>with self.con.cursor() as cx:\<close> evaluates the call and then raises
    \<^verbatim>\<open>TypeError\<close> before its block is entered (the same raise is an \<^verbatim>\<open>AttributeError\<close> up
    to Python 3.10).
  \<^item> \<^verbatim>\<open>self.con.close()\<close> closes the connection and drops what was not committed.
  No method gets as far as a statement that writes a table or as \<^verbatim>\<open>self.con.commit()\<close>.
\<close>

datatype con_call = Cursor | Commit | Close

record store =
  committed :: db
  working :: db
  con_closed :: bool
  con_calls :: "con_call list"

text \<open>An instance with an open connection and both tables created and empty.\<close>

definition empty_store :: store where
  "empty_store =
     \<lparr>committed = empty_db, working = empty_db, con_closed = False, con_calls = []\<rparr>"

definition con_cursor :: "store \<Rightarrow> (pyerror + unit) \<times> store" where
  "con_cursor s =
     (let s1 = s\<lparr>con_calls := con_calls s @ [Cursor]\<rparr>
      in if con_closed s then (Inl ProgrammingError, s1) else (Inr (), s1))"

text \<open>\<^verbatim>\<open>close\<close> (lines 39-40) is \<^verbatim>\<open>self.con.close()\<close> and nothing else: the instance keeps no
  flag of its own. The coroutine is taken as awaited.\<close>

definition close :: "store \<Rightarrow> store" where
  "close s = s\<lparr>working := committed s, con_closed := True, con_calls := con_calls s @ [Close]\<rparr>"

subsection \<open>The embedding encoder\<close>

text \<open>
  \<^verbatim>\<open>def _embedding_to_db(ebbedding): return struct.pack('%sf' % len(ebbedding), *ebbedding)\<close>
  (lines 88-90). The function has the single parameter \<^verbatim>\<open>ebbedding\<close>, no \<^verbatim>\<open>self\<close> and no
  dimension. Called as a plain function it packs every element as a 4-byte single-precision
  float, in order; the conversion of one double, \<open>pack_f\<close>, belongs to \<^verbatim>\<open>struct\<close> and is a
  parameter here (it raises \<^verbatim>\<open>OverflowError\<close> for a double too large for single precision).
\<close>

fun embedding_to_db :: "(pyfloat \<Rightarrow> pyerror + byte list) \<Rightarrow> pyfloat list \<Rightarrow> pyerror + byte list" where
  "embedding_to_db pack_f [] = Inr []"
| "embedding_to_db pack_f (x # ebbedding) =
     (case pack_f x of
        Inl e \<Rightarrow> Inl e
      | Inr bs \<Rightarrow> (case embedding_to_db pack_f ebbedding of
                    Inl e \<Rightarrow> Inl e
                  | Inr rest \<Rightarrow> Inr (bs @ rest)))"

text \<open>
  Both callers write \<^verbatim>\<open>self._embedding_to_db(x)\<close>. The bound call passes two positional
  arguments, \<^verbatim>\<open>self\<close> and \<^verbatim>\<open>x\<close>, to a function that takes one, so Python raises
  \<^verbatim>\<open>TypeError\<close> before the body runs, whatever \<^verbatim>\<open>x\<close> is.
\<close>

definition self_embedding_to_db :: "pyfloat list \<Rightarrow> pyerror + byte list" where
  "self_embedding_to_db x = Inl TypeError"

subsection \<open>\<^verbatim>\<open>add\<close> (lines 68-86)\<close>

text \<open>
  Line 69 makes the empty list \<^verbatim>\<open>ids\<close>. Line 70 is \<^verbatim>\<open>with self.con.cursor() as cx:\<close>: the
  connection is asked for a cursor, and the \<^verbatim>\<open>with\<close> statement raises \<^verbatim>\<open>TypeError\<close> on it.
  That holds for every input, the empty list included. The loop of lines 71-83 (the insert
  into the node table, the second insert, which names the node table again and calls
  \<^verbatim>\<open>self._embedding_to_db\<close>, and \<^verbatim>\<open>ids.append(result.id)\<close>), the \<^verbatim>\<open>commit\<close> of line 85 and
  \<^verbatim>\<open>return ids\<close> are behind that raise and are never reached.
\<close>

definition add :: "store \<Rightarrow> node_with_embedding list \<Rightarrow> (pyerror + string list) \<times> store" where
  "add s embedding_results =
     (case con_cursor s of
        (Inl e, s1) \<Rightarrow> (Inl e, s1)
      | (Inr cx, s1) \<Rightarrow> (Inl TypeError, s1))"

subsection \<open>\<^verbatim>\<open>delete\<close> (lines 93-100)\<close>

text \<open>
  Line 94 is the same \<^verbatim>\<open>with self.con.cursor() as cx:\<close> and raises in the same way, for
  every \<^verbatim>\<open>ref_doc_id\<close>. The two statements of lines 95-98 (the second of them lacks the
  keyword \<^verbatim>\<open>delete\<close>) and the \<^verbatim>\<open>commit\<close> of line 100 are never reached.
\<close>

definition delete :: "store \<Rightarrow> string \<Rightarrow> (pyerror + unit) \<times> store" where
  "delete s ref_doc_id =
     (case con_cursor s of
        (Inl e, s1) \<Rightarrow> (Inl e, s1)
      | (Inr cx, s1) \<Rightarrow> (Inl TypeError, s1))"

subsection \<open>\<^verbatim>\<open>query\<close> (lines 102-111) and \<^verbatim>\<open>_db_query_to_query_result\<close> (lines 114-129)\<close>

text \<open>A row of the join of line 104: \<^verbatim>\<open>node_id, node_text, metadata, doc_id, distance\<close>.\<close>

record joined_row =
  res_node_id :: string
  res_node_text :: string
  res_metadata :: document
  res_doc_id :: string
  res_distance :: pyfloat

text \<open>
  \<^verbatim>\<open>_db_query_to_query_result(db_results)\<close> as a plain function. With no rows the loop body
  never runs and the three empty lists are returned. With a first row the body reaches
  line 121, \<^verbatim>\<open>nodes.append()\<close>, a call of \<^verbatim>\<open>list.append\<close> without its argument, which
  raises \<^verbatim>\<open>TypeError\<close>; lines 122 and 123 (\<^verbatim>\<open>append[...]\<close>, a subscript of the method)
  are behind it.
\<close>

fun db_query_to_query_result :: "joined_row list \<Rightarrow> pyerror + vector_store_query_result" where
  "db_query_to_query_result [] = Inr \<lparr>nodes = [], similarities = [], ids = []\<rparr>"
| "db_query_to_query_result (res # rest) = Inl TypeError"

text \<open>
  \<^verbatim>\<open>query\<close> takes its cursor by a plain assignment (line 103, no \<^verbatim>\<open>with\<close>) and then
  evaluates the arguments of \<^verbatim>\<open>cx.fetchall\<close>, among them
  \<^verbatim>\<open>self._embedding_to_db(query.query_embedding)\<close>. The select and the call
  \<^verbatim>\<open>self._db_query_to_query_result(results)\<close>, which again passes two arguments to a
  function of one parameter, are behind that call.
\<close>

definition query :: "store \<Rightarrow> vector_store_query \<Rightarrow> (pyerror + vector_store_query_result) \<times> store" where
  "query s q =
     (case con_cursor s of
        (Inl e, s1) \<Rightarrow> (Inl e, s1)
      | (Inr u, s1) \<Rightarrow>
          (case self_embedding_to_db (query_embedding q) of
             Inl e \<Rightarrow> (Inl e, s1)
           | Inr blob \<Rightarrow> (Inl TypeError, s1)))"

subsection \<open>Sequences of calls\<close>

datatype op =
    Add "node_with_embedding list"
  | Delete string
  | Query vector_store_query
  | CloseStore

fun step :: "store \<Rightarrow> op \<Rightarrow> store" where
  "step s (Add rs) = snd (add s rs)"
| "step s (Delete d) = snd (delete s d)"
| "step s (Query q) = snd (query s q)"
| "step s CloseStore = close s"

definition run :: "store \<Rightarrow> op list \<Rightarrow> store" where
  "run s ops = foldl step s ops"

subsection \<open>Example values\<close>

text \<open>The scenario of the specification: dimension 3, two nodes of one document.\<close>

definition node_a :: node_with_embedding where
  "node_a = \<lparr>node = \<lparr>node_id = ''a'', doc_id = ''d'', node_text = ''alpha'',
                      node_metadata = []\<rparr>,
             embedding = [0x3FF0000000000000, 0, 0]\<rparr>"

definition node_b :: node_with_embedding where
  "node_b = \<lparr>node = \<lparr>node_id = ''b'', doc_id = ''d'', node_text = ''beta'',
                      node_metadata = []\<rparr>,
             embedding = [0, 0x3FF0000000000000, 0]\<rparr>"

definition query_2 :: vector_store_query where
  "query_2 = \<lparr>query_embedding = [0x3FECCCCCCCCCCCCD, 0x3FB999999999999A, 0],
              similarity_top_k = 2\<rparr>"

section \<open>Properties\<close>

lemmas eval_defs = add_def con_cursor_def close_def delete_def query_def
  self_embedding_to_db_def empty_store_def empty_db_def row_ids_def vss_ids_def
  node_a_def node_b_def query_2_def run_def vss_dimension_def one_to_one_def

subsection \<open>What one call leaves of the state\<close>

lemma embedding_to_db_any_length:
  assumes "\<And>x. \<exists>bs. pack_f x = Inr bs \<and> length bs = 4"
  shows "\<exists>out. embedding_to_db pack_f ebbedding = Inr out \<and> length out = 4 * length ebbedding"
proof (induction ebbedding)
  case Nil
  show ?case by simp
next
  case (Cons x ebbedding)
  from assms [of x] obtain bs where "pack_f x = Inr bs" and "length bs = 4" by blast
  moreover from Cons.IH obtain rest
    where "embedding_to_db pack_f ebbedding = Inr rest" and "length rest = 4 * length ebbedding"
    by blast
  ultimately show ?case by simp
qed

lemma add_result:
  "add s rs =
     (if con_closed s then Inl ProgrammingError else Inl TypeError,
      s\<lparr>con_calls := con_calls s @ [Cursor]\<rparr>)"
  by (simp add: add_def con_cursor_def Let_def)

lemma delete_result:
  "delete s d =
     (if con_closed s then Inl ProgrammingError else Inl TypeError,
      s\<lparr>con_calls := con_calls s @ [Cursor]\<rparr>)"
  by (simp add: delete_def con_cursor_def Let_def)

lemma query_result:
  "query s q =
     (if con_closed s then Inl ProgrammingError else Inl TypeError,
      s\<lparr>con_calls := con_calls s @ [Cursor]\<rparr>)"
  by (simp add: query_def con_cursor_def self_embedding_to_db_def Let_def)

lemma step_closed: "con_closed s \<Longrightarrow> con_closed (step s x)"
  by (cases x) (simp_all add: add_result delete_result query_result close_def)

lemma foldl_step_closed: "con_closed s \<Longrightarrow> con_closed (foldl step s ops)"
  by (induction ops arbitrary: s) (simp_all add: step_closed)

lemma closed_ops:
  assumes "con_closed s"
  shows "add s rs = (Inl ProgrammingError, s\<lparr>con_calls := con_calls s @ [Cursor]\<rparr>)"
    and "delete s d = (Inl ProgrammingError, s\<lparr>con_calls := con_calls s @ [Cursor]\<rparr>)"
    and "query s q = (Inl ProgrammingError, s\<lparr>con_calls := con_calls s @ [Cursor]\<rparr>)"
  using assms by (simp_all add: add_result delete_result query_result)

text \<open>No call writes a table: the durable tables stay, and the tables of the transaction
  stay or, at \<^verbatim>\<open>close\<close>, fall back to the durable ones.\<close>

lemma step_tables:
  "committed (step s x) = committed s"
  "working (step s x) = working s \<or> working (step s x) = committed s"
  by (cases x; simp add: add_result delete_result query_result close_def)+

lemma foldl_step_one_to_one:
  "one_to_one (working s) \<Longrightarrow> one_to_one (committed s) \<Longrightarrow>
   one_to_one (working (foldl step s ops)) \<and> one_to_one (committed (foldl step s ops))"
proof (induction ops arbitrary: s)
  case Nil
  then show ?case by simp
next
  case (Cons x ops)
  have c: "one_to_one (committed (step s x))"
    using Cons.prems(2) by (simp add: step_tables(1))
  have w: "one_to_one (working (step s x))"
    using step_tables(2) [of s x] Cons.prems by auto
  from Cons.IH [OF w c] show ?case by simp
qed

section \<open>The claims\<close>

subsection \<open>C1: the two tables hold the same row identities\<close>

text \<open>
  C1: from the empty store, after every sequence of calls the row identities of the vss
  table are those of the node table, each of them once on either side, in the tables the
  open transaction sees and in the durable ones. (By \<open>step_tables\<close> no call writes a
  table; \<open>foldl_step_one_to_one\<close> is the same statement from any tables that correspond.)
\<close>

theorem index_and_records_same_ids:
  "row_ids (working (run empty_store ops)) = vss_ids (working (run empty_store ops))
   \<and> row_ids (committed (run empty_store ops)) = vss_ids (committed (run empty_store ops))
   \<and> one_to_one (working (run empty_store ops))
   \<and> one_to_one (committed (run empty_store ops))"
proof -
  have "one_to_one (working empty_store)" and "one_to_one (committed empty_store)"
    by (simp_all add: one_to_one_def row_ids_def vss_ids_def empty_store_def empty_db_def)
  from foldl_step_one_to_one [OF this, of ops] show ?thesis
    by (simp add: run_def one_to_one_def)
qed

subsection \<open>C3: an embedding of the wrong length\<close>

text \<open>
  C3 as stated, refuted: the embedding of \<open>node_a\<close> has 3 elements, not 1536, yet \<^verbatim>\<open>add\<close>
  does not fail with \<open>DimensionMismatch\<close>.
\<close>

theorem wrong_dimension_counterexample:
  "length (embedding node_a) \<noteq> vss_dimension
   \<and> fst (add empty_store [node_a]) \<noteq> Inl DimensionMismatch"
  by (simp add: eval_defs)

text \<open>
  C3, amended: \<^verbatim>\<open>add\<close> has no dimension check. A call whose input holds a node with an
  embedding of another length than the table dimension never fails with
  \<open>DimensionMismatch\<close>; it writes nothing, so that afterwards neither a node row nor a vss
  entry of that node exists: both tables, in the transaction and durably, are as before
  the call.
\<close>

theorem add_has_no_dimension_check:
  assumes "r \<in> set embedding_results" and "length (embedding r) \<noteq> vss_dimension"
  shows "fst (add s embedding_results) \<noteq> Inl DimensionMismatch
    \<and> working (snd (add s embedding_results)) = working s
    \<and> committed (snd (add s embedding_results)) = committed s"
  by (simp add: add_result)

theorem add_has_no_dimension_check_witness:
  "node_a \<in> set [node_a, node_b] \<and> length (embedding node_a) \<noteq> vss_dimension
   \<and> fst (add empty_store [node_a, node_b]) \<noteq> Inl DimensionMismatch
   \<and> working (snd (add empty_store [node_a, node_b])) = working empty_store
   \<and> committed (snd (add empty_store [node_a, node_b])) = committed empty_store"
  using add_has_no_dimension_check [of node_a "[node_a, node_b]" empty_store]
  by (simp add: node_a_def vss_dimension_def)

subsection \<open>C4: the order of the similarity scores\<close>

text \<open>
  C4 asks that every query returns its similarity scores in non-increasing order. The
  source returns no scores at all: \<^verbatim>\<open>query\<close> raises \<^verbatim>\<open>TypeError\<close> while it evaluates the
  arguments of \<^verbatim>\<open>cx.fetchall\<close>, after the two \<^verbatim>\<open>add\<close> calls of the scenario as on the
  empty store.
\<close>

theorem query_raises:
  "fst (query (run empty_store [Add [node_a, node_b], Add []]) query_2) = Inl TypeError
   \<and> fst (query empty_store query_2) = Inl TypeError"
  by (simp add: eval_defs)

subsection \<open>C5: three parallel sequences\<close>

text \<open>
  C5 asks that a query result consists of nodes, similarities and ids of equal length,
  position by position about the same row. \<^verbatim>\<open>_db_query_to_query_result\<close> builds no such
  result from a matched row: on a one-row input it raises \<^verbatim>\<open>TypeError\<close> at
  \<^verbatim>\<open>nodes.append()\<close>.
\<close>

theorem query_result_of_one_row_raises:
  "db_query_to_query_result
     [\<lparr>res_node_id = ''a'', res_node_text = ''alpha'', res_metadata = [(''doc_id'', ''d'')],
       res_doc_id = ''d'', res_distance = 0\<rparr>] = Inl TypeError"
  by simp

subsection \<open>C6: delete\<close>

text \<open>
  C6 asks that \<^verbatim>\<open>delete(doc_id)\<close> completes and that a \<^verbatim>\<open>doc_id\<close> without rows is a
  no-op. In the source \<^verbatim>\<open>delete\<close> never completes: on the empty store, where no
  \<^verbatim>\<open>doc_id\<close> has a row, \<^verbatim>\<open>delete('x')\<close> and \<^verbatim>\<open>delete('d')\<close> raise \<^verbatim>\<open>TypeError\<close> at line 94,
  after one call on the connection.
\<close>

theorem delete_raises:
  "fst (delete empty_store ''x'') = Inl TypeError
   \<and> fst (delete empty_store ''d'') = Inl TypeError
   \<and> con_calls (snd (delete empty_store ''x'')) = [Cursor]"
  by (simp add: eval_defs)

subsection \<open>C7: the identifiers that add returns\<close>

text \<open>
  C7 asks that \<^verbatim>\<open>add\<close> returns the \<^verbatim>\<open>node_id\<close> of every added node, in input order. The
  source returns no identifier: \<^verbatim>\<open>add\<close> of the two nodes of the scenario, of one node and
  of the empty list raises \<^verbatim>\<open>TypeError\<close> at line 70, before \<^verbatim>\<open>ids.append\<close> and
  \<^verbatim>\<open>return ids\<close>.
\<close>

theorem add_returns_no_ids:
  "fst (add empty_store [node_a, node_b]) = Inl TypeError
   \<and> fst (add empty_store [node_a]) = Inl TypeError
   \<and> fst (add empty_store []) = Inl TypeError"
  by (simp add: eval_defs)

subsection \<open>C8: the node row before the vss entry\<close>

text \<open>
  C8 asks that \<^verbatim>\<open>add\<close> inserts the node row of each node and then writes its vss entry.
  The source does neither: after \<^verbatim>\<open>add\<close> of the two nodes of the scenario on the empty
  store both tables of the transaction are still empty, and so are the durable ones.
\<close>

theorem add_inserts_no_row_and_no_entry:
  "node_table (working (snd (add empty_store [node_a, node_b]))) = []
   \<and> vss_table (working (snd (add empty_store [node_a, node_b]))) = []
   \<and> node_table (committed (snd (add empty_store [node_a, node_b]))) = []
   \<and> vss_table (committed (snd (add empty_store [node_a, node_b]))) = []"
  by (simp add: eval_defs)

subsection \<open>C9: operations after close\<close>

text \<open>
  C9 as stated, refuted: on the closed store \<^verbatim>\<open>add\<close>, \<^verbatim>\<open>delete\<close> and \<^verbatim>\<open>query\<close> do not
  fail with \<open>StoreClosed\<close>, and \<^verbatim>\<open>add\<close> has called the connection.
\<close>

theorem closed_store_counterexample:
  "fst (add (close empty_store) [node_a]) \<noteq> Inl StoreClosed
   \<and> fst (delete (close empty_store) ''d'') \<noteq> Inl StoreClosed
   \<and> fst (query (close empty_store) query_2) \<noteq> Inl StoreClosed
   \<and> con_calls (snd (add (close empty_store) [node_a])) \<noteq> con_calls (close empty_store)"
  by (simp add: add_def delete_def query_def close_def con_cursor_def empty_store_def Let_def)

text \<open>
  C9, amended: the store keeps no closed state of its own. After \<^verbatim>\<open>close\<close>, and after any
  further calls, every \<^verbatim>\<open>add\<close>, \<^verbatim>\<open>delete\<close> and \<^verbatim>\<open>query\<close> asks the closed connection for a
  cursor, exactly one call on the connection, and fails with the connection's own
  \<^verbatim>\<open>ProgrammingError\<close>.
\<close>

theorem after_close_connection_error:
  "fst (add (run (close s) ops) rs) = Inl ProgrammingError
   \<and> fst (delete (run (close s) ops) d) = Inl ProgrammingError
   \<and> fst (query (run (close s) ops) q) = Inl ProgrammingError
   \<and> con_calls (snd (add (run (close s) ops) rs)) = con_calls (run (close s) ops) @ [Cursor]
   \<and> con_calls (snd (delete (run (close s) ops) d)) = con_calls (run (close s) ops) @ [Cursor]
   \<and> con_calls (snd (query (run (close s) ops) q)) = con_calls (run (close s) ops) @ [Cursor]"
proof -
  have "con_closed (close s)" by (simp add: close_def)
  then have c: "con_closed (run (close s) ops)"
    unfolding run_def by (rule foldl_step_closed)
  show ?thesis by (simp add: closed_ops [OF c])
qed

subsection \<open>C10: one commit, behind the loop\<close>

text \<open>
  C10 asks that \<^verbatim>\<open>add\<close> issues one commit once every node of the input has been
  processed. The source issues none: \<^verbatim>\<open>add\<close> of the empty list, where no node is left to
  process, and \<^verbatim>\<open>add\<close> of the two nodes of the scenario raise \<^verbatim>\<open>TypeError\<close>, and the only
  call either has made on the connection is the one for the cursor.
\<close>

theorem add_never_commits:
  "fst (add empty_store []) = Inl TypeError
   \<and> con_calls (snd (add empty_store [])) = [Cursor]
   \<and> con_calls (snd (add empty_store [node_a, node_b])) = [Cursor]
   \<and> Commit \<notin> set (con_calls (run empty_store [Add [node_a, node_b], Add []]))"
  by (simp add: eval_defs)

end
